theory Spec2Isabelle
  imports Main
begin

section \<open>Maker PSM: pool state, event handlers and pricing\<close>

text \<open>
  A shallow embedding of \<^verbatim>\<open>src/dex/maker-psm/maker-psm.ts\<close>. JavaScript \<^verbatim>\<open>bigint\<close>
  values are unbounded signed integers, so they are \<^typ>\<open>int\<close>. Every \<^verbatim>\<open>throw\<close> of
  the source is a value \<open>Inl e\<close> of a sum type.
\<close>

subsection \<open>Arithmetic on bigint\<close>

datatype error = RangeError | TypeError | ParseError

definition WAD :: int where
  "WAD = 10 ^ 18"

definition BN0 :: int where
  "BN0 = 0"

definition BN1 :: int where
  "BN1 = 1"

definition BN1E18 :: int where
  "BN1E18 = 10 ^ 18"

text \<open>
  The operator \<^verbatim>\<open>/\<close> on bigint: the quotient is truncated towards zero, and a zero
  divisor throws \<^verbatim>\<open>RangeError: Division by zero\<close>.
\<close>

definition bigint_div :: "int \<Rightarrow> int \<Rightarrow> error + int" where
  "bigint_div a b =
     (if b = 0 then Inl RangeError else Inr (sgn a * sgn b * (\<bar>a\<bar> div \<bar>b\<bar>)))"

text \<open>
  The operator \<^verbatim>\<open>**\<close> on bigint, as in \<^verbatim>\<open>BigInt(10) ** BigInt(18 - decimals)\<close>: a
  negative exponent throws \<^verbatim>\<open>RangeError\<close>.
\<close>

definition bigint_pow :: "int \<Rightarrow> int \<Rightarrow> error + int" where
  "bigint_pow b e = (if e < 0 then Inl RangeError else Inr (b ^ nat e))"

text \<open>\<^verbatim>\<open>const ceilDiv = (a: bigint, b: bigint) => (a + b - BN1) / b;\<close>\<close>

definition ceilDiv :: "int \<Rightarrow> int \<Rightarrow> error + int" where
  "ceilDiv a b = bigint_div (a + b - BN1) b"

text \<open>
  \<^verbatim>\<open>const bigIntify = (b: any) => BigInt(b.toString());\<close> The argument is a decoded
  event field; a field that the event does not carry is \<^verbatim>\<open>undefined\<close>, and
  \<^verbatim>\<open>undefined.toString()\<close> throws \<^verbatim>\<open>TypeError\<close>.
\<close>

definition bigIntify :: "int option \<Rightarrow> error + int" where
  "bigIntify b = (case b of None \<Rightarrow> Inl TypeError | Some v \<Rightarrow> Inr v)"

subsection \<open>Pool state and events\<close>

record PoolState =
  tin :: int
  tout :: int
  Art :: int
  line :: int
  rate :: int

text \<open>
  A decoded log (\<^verbatim>\<open>psmInterface.parseLog(log)\<close>): the event's name and the fields of
  \<^verbatim>\<open>event.args\<close> that the handlers read.
\<close>

record Event =
  name :: string
  args_what :: "string option"
  args_data :: "int option"
  args_value :: "int option"

definition bytes32Tout :: string where
  "bytes32Tout = ''0x746f757400000000000000000000000000000000000000000000000000000000''"

definition bytes32Tin :: string where
  "bytes32Tin = ''0x74696e0000000000000000000000000000000000000000000000000000000000''"

text \<open>
  The constructor's \<^verbatim>\<open>this.to18ConversionFactor = BigInt(10) ** BigInt(18 - poolConfig.gem.decimals)\<close>.
\<close>

definition to18ConversionFactor :: "int \<Rightarrow> error + int" where
  "to18ConversionFactor decimals = bigint_pow 10 (18 - decimals)"

text \<open>
  The handlers assign to a field of the pool object they are given and return that same
  object. Here a handler returns the object's new contents; a handler that throws has
  assigned nothing.
\<close>

definition handleFile :: "Event \<Rightarrow> PoolState \<Rightarrow> error + PoolState" where
  "handleFile event pool =
     (if args_what event = Some bytes32Tin then
        (case bigIntify (args_data event) of
           Inl e \<Rightarrow> Inl e
         | Inr v \<Rightarrow> Inr (pool\<lparr>tin := v\<rparr>))
      else if args_what event = Some bytes32Tout then
        (case bigIntify (args_data event) of
           Inl e \<Rightarrow> Inl e
         | Inr v \<Rightarrow> Inr (pool\<lparr>tout := v\<rparr>))
      else Inr pool)"

definition handleSellGem :: "int \<Rightarrow> Event \<Rightarrow> PoolState \<Rightarrow> error + PoolState" where
  "handleSellGem factor event pool =
     (case bigIntify (args_value event) of
        Inl e \<Rightarrow> Inl e
      | Inr v \<Rightarrow> Inr (pool\<lparr>Art := Art pool + v * factor\<rparr>))"

definition handleBuyGem :: "int \<Rightarrow> Event \<Rightarrow> PoolState \<Rightarrow> error + PoolState" where
  "handleBuyGem factor event pool =
     (case bigIntify (args_value event) of
        Inl e \<Rightarrow> Inl e
      | Inr v \<Rightarrow> Inr (pool\<lparr>Art := Art pool - v * factor\<rparr>))"

text \<open>
  The handler table that the constructor fills: three entries of its own, keyed by event
  name.
\<close>

definition handlers :: "int \<Rightarrow> string \<rightharpoonup> (Event \<Rightarrow> PoolState \<Rightarrow> error + PoolState)" where
  "handlers factor =
     [''File'' \<mapsto> handleFile,
      ''SellGem'' \<mapsto> handleSellGem factor,
      ''BuyGem'' \<mapsto> handleBuyGem factor]"

text \<open>
  The table is a plain object, so \<^verbatim>\<open>event.name in this.handlers\<close> is also true of the
  names that every object inherits from \<^verbatim>\<open>Object.prototype\<close>, and
  \<^verbatim>\<open>this.handlers[event.name](event, state, log)\<close> then calls the inherited member.
  \<^verbatim>\<open>__proto__\<close> is an object and not a function, and \<^verbatim>\<open>__defineGetter__\<close> and
  \<^verbatim>\<open>__defineSetter__\<close> reject a second argument that is not a function: these three throw
  \<^verbatim>\<open>TypeError\<close>. The others return a value that is not a pool state (the event, a string,
  a boolean, the table, \<^verbatim>\<open>undefined\<close>). None of them writes into the state.
\<close>

datatype Inherited = Throws | ReturnsOther

definition Object_prototype_member :: "string \<Rightarrow> Inherited option" where
  "Object_prototype_member n =
     (if n \<in> set [''__proto__'', ''__defineGetter__'', ''__defineSetter__''] then Some Throws
      else if n \<in> set [''constructor'', ''hasOwnProperty'', ''isPrototypeOf'',
                         ''propertyIsEnumerable'', ''toLocaleString'', ''toString'',
                         ''valueOf'', ''__lookupGetter__'', ''__lookupSetter__'']
      then Some ReturnsOther
      else None)"

text \<open>
  What \<^verbatim>\<open>processLog\<close> returns: \<^verbatim>\<open>null\<close>, a pool state, or a value that is neither.
\<close>

datatype LogResult = LogNull | LogState PoolState | LogOther

text \<open>
  \<^verbatim>\<open>processLog(state, log)\<close>. The decoder is the interface's \<^verbatim>\<open>parseLog\<close>, a parameter
  here; it throws on a log it cannot decode. Everything is inside \<^verbatim>\<open>try\<close>, and the
  \<^verbatim>\<open>catch\<close> returns \<^verbatim>\<open>null\<close>. The result is a pair: the value returned and the
  contents of the object \<^verbatim>\<open>state\<close> after the call, since a handler writes into that
  object. A name of the table's own shadows an inherited one.
\<close>

definition processLog ::
  "int \<Rightarrow> ('log \<Rightarrow> error + Event) \<Rightarrow> PoolState \<Rightarrow> 'log \<Rightarrow> LogResult \<times> PoolState" where
  "processLog factor logDecoder state log =
     (case logDecoder log of
        Inl e \<Rightarrow> (LogNull, state)
      | Inr event \<Rightarrow>
          (case handlers factor (name event) of
             Some handler \<Rightarrow>
               (case handler event state of
                  Inl e \<Rightarrow> (LogNull, state)
                | Inr state' \<Rightarrow> (LogState state', state'))
           | None \<Rightarrow>
               (case Object_prototype_member (name event) of
                  Some Throws \<Rightarrow> (LogNull, state)
                | Some ReturnsOther \<Rightarrow> (LogOther, state)
                | None \<Rightarrow> (LogState state, state))))"

subsection \<open>Pricing\<close>

datatype SwapSide = SELL | BUY

definition sellGemCheck :: "PoolState \<Rightarrow> int \<Rightarrow> bool" where
  "sellGemCheck poolState dart \<longleftrightarrow> (dart + Art poolState) * rate poolState \<le> line poolState"

definition buyGemCheck :: "PoolState \<Rightarrow> int \<Rightarrow> bool" where
  "buyGemCheck poolState dart \<longleftrightarrow> dart \<le> Art poolState"

text \<open>
  The function that \<^verbatim>\<open>computePrices\<close> maps over the amounts. Each division is evaluated
  where the source evaluates it: the first one before the check, the rescaling only when
  the check has passed.
\<close>

definition computePrice :: "bool \<Rightarrow> int \<Rightarrow> SwapSide \<Rightarrow> PoolState \<Rightarrow> int \<Rightarrow> error + int" where
  "computePrice isSrcDai factor side poolState a =
     (if side = SELL then
        (if isSrcDai then
           (case bigint_div (a * WAD) (WAD + tout poolState) of
              Inl e \<Rightarrow> Inl e
            | Inr gemAmt18 \<Rightarrow>
                if buyGemCheck poolState gemAmt18 then bigint_div gemAmt18 factor
                else Inr BN0)
         else
           (let gemAmt18 = factor * a in
            if sellGemCheck poolState gemAmt18 then
              (case bigint_div (gemAmt18 * tin poolState) WAD of
                 Inl e \<Rightarrow> Inl e
               | Inr fee \<Rightarrow> Inr (gemAmt18 - fee))
            else Inr BN0))
      else
        (if isSrcDai then
           (let gemAmt18 = factor * a in
            if buyGemCheck poolState gemAmt18 then
              (case bigint_div (gemAmt18 * tout poolState) WAD of
                 Inl e \<Rightarrow> Inl e
               | Inr fee \<Rightarrow> Inr (gemAmt18 + fee))
            else Inr BN0)
         else
           (case bigint_div (a * WAD) (WAD - tin poolState) of
              Inl e \<Rightarrow> Inl e
            | Inr gemAmt18 \<Rightarrow>
                if sellGemCheck poolState gemAmt18 then bigint_div gemAmt18 factor
                else Inr BN0)))"

text \<open>\<^verbatim>\<open>Array.prototype.map\<close> with a callback that may throw: the first throw ends the call.\<close>

fun map_throwing :: "('a \<Rightarrow> error + 'b) \<Rightarrow> 'a list \<Rightarrow> error + 'b list" where
  "map_throwing g [] = Inr []"
| "map_throwing g (x # xs) =
     (case g x of
        Inl e \<Rightarrow> Inl e
      | Inr y \<Rightarrow> (case map_throwing g xs of Inl e \<Rightarrow> Inl e | Inr ys \<Rightarrow> Inr (y # ys)))"

definition computePrices ::
  "bool \<Rightarrow> int \<Rightarrow> SwapSide \<Rightarrow> int list \<Rightarrow> PoolState \<Rightarrow> error + int list" where
  "computePrices isSrcDai factor side amounts poolState =
     map_throwing (computePrice isSrcDai factor side poolState) amounts"

subsection \<open>Quotes and execution parameters\<close>

text \<open>
  The quote's \<^verbatim>\<open>data\<close>. \<^verbatim>\<open>toll\<close> is written with \<^verbatim>\<open>toString()\<close> and read back with
  \<^verbatim>\<open>BigInt(data.toll)\<close>, which is the identity on integers, so it is kept as an integer.
\<close>

record MakerPsmData =
  toll :: int
  psmAddress :: string
  gemJoinAddress :: string
  gemDecimals :: int

record ExchangePrice =
  prices :: "int list"
  unit :: int
  data :: MakerPsmData

text \<open>The fee that \<^verbatim>\<open>getPricesVolume\<close> records in the quote.\<close>

definition getPricesVolume_toll :: "SwapSide \<Rightarrow> bool \<Rightarrow> PoolState \<Rightarrow> int" where
  "getPricesVolume_toll side isSrcDai poolState =
     (if (side = SELL \<and> isSrcDai) \<or> (side = BUY \<and> \<not> isSrcDai) then tout poolState
      else tin poolState)"

text \<open>
  \<^verbatim>\<open>getPricesVolume\<close> from the point where the pool is resolved and its state fetched.
  \<open>factor\<close> is the pool's \<^verbatim>\<open>to18ConversionFactor\<close>; the decimals are those of the source
  and destination tokens (\<^verbatim>\<open>10 ** decimals\<close> is a double, exact up to \<open>10 ^ 22\<close>).
  \<^verbatim>\<open>[unit, ...prices]\<close> takes the head and the tail of a list that has one entry more
  than \<open>amounts\<close>, so it is never empty. The entry's constant fields (exchange, gas cost,
  pool identifier, pool addresses) are left out.
\<close>

definition getPricesVolume ::
  "bool \<Rightarrow> int \<Rightarrow> string \<Rightarrow> string \<Rightarrow> nat \<Rightarrow> nat \<Rightarrow> int list \<Rightarrow> SwapSide \<Rightarrow> PoolState
     \<Rightarrow> error + ExchangePrice" where
  "getPricesVolume isSrcDai factor psm gemJoin srcDecimals destDecimals amounts side poolState =
     (let unitVolume = 10 ^ (if side = SELL then srcDecimals else destDecimals);
          gem_decimals = (if isSrcDai then destDecimals else srcDecimals);
          toll = getPricesVolume_toll side isSrcDai poolState
      in case computePrices isSrcDai factor side (unitVolume # amounts) poolState of
           Inl e \<Rightarrow> Inl e
         | Inr ys \<Rightarrow>
             Inr \<lparr>prices = tl ys, unit = hd ys,
                  data = \<lparr>toll = toll, psmAddress = psm, gemJoinAddress = gemJoin,
                          gemDecimals = int gem_decimals\<rparr>\<rparr>)"

text \<open>
  \<^verbatim>\<open>getPsmParams\<close>. \<open>isSrcDai\<close> is the comparison of the source token with the DAI
  address; the amounts are the decimal strings' integers. The conversion factor is computed
  first, on every path.
\<close>

record PsmParams =
  isGemSell :: bool
  gemAmount :: int

definition getPsmParams ::
  "bool \<Rightarrow> int \<Rightarrow> int \<Rightarrow> MakerPsmData \<Rightarrow> SwapSide \<Rightarrow> error + PsmParams" where
  "getPsmParams isSrcDai srcAmount destAmount d side =
     (case bigint_pow 10 (18 - gemDecimals d) of
        Inl e \<Rightarrow> Inl e
      | Inr factor \<Rightarrow>
          if side = SELL then
            (if isSrcDai then
               (case bigint_div (srcAmount * WAD) (WAD + toll d) of
                  Inl e \<Rightarrow> Inl e
                | Inr gemAmt18 \<Rightarrow>
                    (case bigint_div gemAmt18 factor of
                       Inl e \<Rightarrow> Inl e
                     | Inr g \<Rightarrow> Inr \<lparr>isGemSell = False, gemAmount = g\<rparr>))
             else Inr \<lparr>isGemSell = True, gemAmount = srcAmount\<rparr>)
          else
            (if isSrcDai then Inr \<lparr>isGemSell = False, gemAmount = destAmount\<rparr>
             else
               (case ceilDiv (destAmount * WAD) ((WAD - toll d) * factor) of
                  Inl e \<Rightarrow> Inl e
                | Inr gemAmt \<Rightarrow> Inr \<lparr>isGemSell = True, gemAmount = gemAmt\<rparr>)))"

subsection \<open>Liquidity\<close>

text \<open>
  \<^verbatim>\<open>parseInt(q.toString())\<close> turns a bigint into a double. An integer of magnitude up to
  \<open>2 ^ 53\<close> is a double as it is; a larger one is rounded, and that rounding is outside this
  development: \<open>None\<close>.
\<close>

definition parseInt :: "int \<Rightarrow> int option" where
  "parseInt q = (if \<bar>q\<bar> \<le> 2 ^ 53 then Some q else None)"

text \<open>
  \<^verbatim>\<open>minLiq\<close>, the liquidity figure of \<^verbatim>\<open>getTopPoolsForToken\<close> for one pool state:
  \<^verbatim>\<open>2 * parseInt(((buyLimit > sellLimit ? sellLimit : buyLimit) / BN1E18).toString())\<close>.
\<close>

definition minLiq :: "PoolState \<Rightarrow> error + int option" where
  "minLiq poolState =
     (let buyLimit = Art poolState in
      case bigint_div (line poolState - Art poolState * rate poolState) (rate poolState) of
        Inl e \<Rightarrow> Inl e
      | Inr sellLimit \<Rightarrow>
          (case bigint_div (if buyLimit > sellLimit then sellLimit else buyLimit) BN1E18 of
             Inl e \<Rightarrow> Inl e
           | Inr q \<Rightarrow> Inr (map_option (\<lambda>n. 2 * n) (parseInt q))))"

text \<open>
  The liquidity figure as the specification words it:
  \<open>2 * min(buyLimit, sellLimit) / 1e18\<close>, rounded down.
\<close>

definition spec_liquidityEstimate :: "PoolState \<Rightarrow> int" where
  "spec_liquidityEstimate poolState =
     (2 * min (Art poolState)
              ((line poolState - Art poolState * rate poolState) div rate poolState))
       div 10 ^ 18"

subsection \<open>Fetching the pool state\<close>

text \<open>
  \<^verbatim>\<open>getPoolState(pool, blockNumber)\<close> asks the pool's event subscriber for its state at the
  block, and on a miss reads the chain and stores what it read. The subscriber's
  \<^verbatim>\<open>getState\<close> and \<^verbatim>\<open>setState\<close> belong to its base class and are parameters here, over
  any type of store. The world is the pool's store and the number of on-chain reads issued
  so far. \<open>chain\<close> is what \<^verbatim>\<open>generateState\<close> resolves to at a block: a state, or a failure
  of the chain query.

  An \<^verbatim>\<open>async\<close> function runs up to its first \<^verbatim>\<open>await\<close> when it is called, and the rest
  when the awaited promise has resolved. \<open>getPoolState_begin\<close> is the first part: the
  lookup and, on a miss, the call of \<^verbatim>\<open>generateState\<close>, which issues the chain read.
  \<open>getPoolState_resume\<close> is the second part: \<^verbatim>\<open>setState\<close> and the return.
\<close>

record 'store PoolWorld =
  store :: 'store
  chainReads :: nat

datatype Suspended = Returned PoolState | Awaiting nat

definition getPoolState_begin ::
  "('store \<Rightarrow> nat \<Rightarrow> PoolState option) \<Rightarrow> 'store PoolWorld \<Rightarrow> nat
     \<Rightarrow> Suspended \<times> 'store PoolWorld" where
  "getPoolState_begin getState w blockNumber =
     (case getState (store w) blockNumber of
        Some eventState \<Rightarrow> (Returned eventState, w)
      | None \<Rightarrow> (Awaiting blockNumber, w\<lparr>chainReads := chainReads w + 1\<rparr>))"

definition getPoolState_resume ::
  "(PoolState \<Rightarrow> nat \<Rightarrow> 'store \<Rightarrow> 'store) \<Rightarrow> (nat \<Rightarrow> error + PoolState) \<Rightarrow> Suspended
     \<Rightarrow> 'store PoolWorld \<Rightarrow> (error + PoolState) \<times> 'store PoolWorld" where
  "getPoolState_resume setState chain suspended w =
     (case suspended of
        Returned eventState \<Rightarrow> (Inr eventState, w)
      | Awaiting blockNumber \<Rightarrow>
          (case chain blockNumber of
             Inl e \<Rightarrow> (Inl e, w)
           | Inr onChainState \<Rightarrow>
               (Inr onChainState, w\<lparr>store := setState onChainState blockNumber (store w)\<rparr>)))"

text \<open>One call, run to its end before anything else happens.\<close>

definition getPoolState ::
  "('store \<Rightarrow> nat \<Rightarrow> PoolState option) \<Rightarrow> (PoolState \<Rightarrow> nat \<Rightarrow> 'store \<Rightarrow> 'store)
     \<Rightarrow> (nat \<Rightarrow> error + PoolState) \<Rightarrow> 'store PoolWorld \<Rightarrow> nat
     \<Rightarrow> (error + PoolState) \<times> 'store PoolWorld" where
  "getPoolState getState setState chain w blockNumber =
     (case getPoolState_begin getState w blockNumber of
        (suspended, w') \<Rightarrow> getPoolState_resume setState chain suspended w')"

text \<open>
  Two calls for the same block made before the first chain read has resolved: both run
  their first part, then both are resumed.
\<close>

definition getPoolState_concurrently ::
  "('store \<Rightarrow> nat \<Rightarrow> PoolState option) \<Rightarrow> (PoolState \<Rightarrow> nat \<Rightarrow> 'store \<Rightarrow> 'store)
     \<Rightarrow> (nat \<Rightarrow> error + PoolState) \<Rightarrow> 'store PoolWorld \<Rightarrow> nat
     \<Rightarrow> (error + PoolState) \<times> (error + PoolState) \<times> 'store PoolWorld" where
  "getPoolState_concurrently getState setState chain w blockNumber =
     (case getPoolState_begin getState w blockNumber of
        (suspended1, w1) \<Rightarrow>
          (case getPoolState_begin getState w1 blockNumber of
             (suspended2, w2) \<Rightarrow>
               (case getPoolState_resume setState chain suspended1 w2 of
                  (result1, w3) \<Rightarrow>
                    (case getPoolState_resume setState chain suspended2 w3 of
                       (result2, w4) \<Rightarrow> (result1, result2, w4)))))"

text \<open>A store of snapshots for one pool, by block number.\<close>

type_synonym SnapshotStore = "nat \<rightharpoonup> PoolState"

text \<open>
  Modelled from the spec: \<^verbatim>\<open>getState\<close> of the base class \<^verbatim>\<open>StatefulEventSubscriber\<close>,
  which is not among the sources. Section 4.2: \<open>get\<close> is a lookup by block, exact match
  only.
\<close>

definition store_get :: "SnapshotStore \<Rightarrow> nat \<Rightarrow> PoolState option" where
  "store_get st blockNumber = st blockNumber"

text \<open>
  Modelled from the spec: \<^verbatim>\<open>setState\<close> of the base class \<^verbatim>\<open>StatefulEventSubscriber\<close>,
  which is not among the sources. Section 4.2: \<open>put\<close> at an existing key overwrites.
\<close>

definition store_put :: "PoolState \<Rightarrow> nat \<Rightarrow> SnapshotStore \<Rightarrow> SnapshotStore" where
  "store_put snapshot blockNumber st = st(blockNumber \<mapsto> snapshot)"

subsection \<open>The pricing rules in closed form\<close>

text \<open>
  The 18-decimal asset amount of a request, as \<open>computePrice\<close> computes it on unsigned
  inputs, and the check it is put to.
\<close>

definition gemAmt18_of :: "bool \<Rightarrow> int \<Rightarrow> SwapSide \<Rightarrow> PoolState \<Rightarrow> int \<Rightarrow> int" where
  "gemAmt18_of isSrcDai factor side poolState a =
     (if side = SELL then
        (if isSrcDai then (a * WAD) div (WAD + tout poolState) else factor * a)
      else
        (if isSrcDai then factor * a else (a * WAD) div (WAD - tin poolState)))"

definition feasible :: "bool \<Rightarrow> int \<Rightarrow> SwapSide \<Rightarrow> PoolState \<Rightarrow> int \<Rightarrow> bool" where
  "feasible isSrcDai factor side poolState a \<longleftrightarrow>
     (if isSrcDai then gemAmt18_of isSrcDai factor side poolState a \<le> Art poolState
      else (gemAmt18_of isSrcDai factor side poolState a + Art poolState) * rate poolState
             \<le> line poolState)"




section \<open>Facts about bigint division\<close>

lemma WAD_pos: "0 < WAD"
  by (simp add: WAD_def)

lemma bigint_div_nonneg:
  "0 \<le> a \<Longrightarrow> 0 < b \<Longrightarrow> bigint_div a b = Inr (a div b)"
  by (cases "a = 0") (simp_all add: bigint_div_def)

lemma bigint_div_WAD:
  "0 \<le> a \<Longrightarrow> bigint_div a WAD = Inr (a div WAD)"
  by (rule bigint_div_nonneg) (simp_all add: WAD_def)




section \<open>Event application\<close>

text \<open>
  C9. A File event whose \<open>what\<close> is the bytes32 encoding of \<open>tin\<close>, carrying the value
  \<open>v\<close>, applied to any pool state: the handler returns a state whose \<open>tin\<close> is \<open>v\<close>
  and whose \<open>tout\<close>, \<open>Art\<close>, \<open>line\<close> and \<open>rate\<close> are those of the input.
\<close>

theorem handleFile_tin_frame:
  assumes "args_what event = Some bytes32Tin" and "args_data event = Some v"
  shows "\<exists>pool'. handleFile event pool = Inr pool' \<and> tin pool' = v \<and>
           tout pool' = tout pool \<and> Art pool' = Art pool \<and>
           line pool' = line pool \<and> rate pool' = rate pool"
  using assms by (simp add: handleFile_def bigIntify_def)

theorem handleFile_tin_frame_witness:
  "\<exists>pool'. handleFile \<lparr>name = ''File'', args_what = Some bytes32Tin, args_data = Some 1000,
                        args_value = None\<rparr>
              \<lparr>tin = 0, tout = 5, Art = 7, line = 11, rate = 13\<rparr> = Inr pool' \<and>
           tin pool' = 1000 \<and> tout pool' = 5 \<and> Art pool' = 7 \<and> line pool' = 11 \<and> rate pool' = 13"
  using handleFile_tin_frame
    [of "\<lparr>name = ''File'', args_what = Some bytes32Tin, args_data = Some 1000, args_value = None\<rparr>"
        1000 "\<lparr>tin = 0, tout = 5, Art = 7, line = 11, rate = 13\<rparr>"]
  by simp

section \<open>The four pricing rules on unsigned inputs\<close>

text \<open>
  On unsigned inputs the truncating division of bigint is \<open>div\<close>, no division has a zero
  divisor, and each branch of \<open>computePrice\<close> has a closed form.
\<close>

lemma computePrice_sell_dai:
  assumes "0 \<le> tout st" and "0 \<le> a" and "0 < factor"
  shows "computePrice True factor SELL st a =
           Inr (if (a * WAD) div (WAD + tout st) \<le> Art st
                then ((a * WAD) div (WAD + tout st)) div factor else 0)"
proof -
  have d: "0 < WAD + tout st" using assms(1) WAD_pos by linarith
  have n: "0 \<le> a * WAD" using assms(2) WAD_pos by simp
  have q: "0 \<le> (a * WAD) div (WAD + tout st)"
    using n d by (simp add: pos_imp_zdiv_nonneg_iff)
  show ?thesis
    by (simp add: computePrice_def bigint_div_nonneg [OF n d] buyGemCheck_def
        bigint_div_nonneg [OF q assms(3)] BN0_def)
qed

lemma computePrice_sell_gem:
  assumes "0 \<le> tin st" and "0 \<le> a" and "0 \<le> factor"
  shows "computePrice False factor SELL st a =
           Inr (if (factor * a + Art st) * rate st \<le> line st
                then factor * a - (factor * a * tin st) div WAD else 0)"
proof -
  have n: "0 \<le> factor * a * tin st" using assms by simp
  show ?thesis
    by (simp add: computePrice_def Let_def sellGemCheck_def bigint_div_WAD [OF n] BN0_def)
qed





section \<open>From one amount to the list of amounts\<close>

lemma map_throwing_Inr:
  "(\<And>x. x \<in> set xs \<Longrightarrow> g x = Inr (h x)) \<Longrightarrow> map_throwing g xs = Inr (map h xs)"
  by (induction xs) simp_all

section \<open>Asset to stable, buy side\<close>

text \<open>
  C1. The claim: buying a stable amount with the asset, the required asset input is
  \<open>ceilDiv (stableOut18 * W) (W - sellFeeRate)\<close>, rounded up. The code divides with the
  truncating \<^verbatim>\<open>/\<close>. At a sell fee of 0.1 percent and a request for \<open>10 ^ 18\<close> of the
  stable token (an 18-decimal asset, a ceiling far away), \<open>computePrice\<close> returns
  \<open>1001001001001001001\<close>, where the rounded-up quotient is \<open>1001001001001001002\<close>;
  that is also the amount \<open>getPsmParams\<close> computes for the same trade at the same fee.
\<close>

theorem buy_asset_source_truncates:
  "computePrice False 1 BUY
     \<lparr>tin = 10 ^ 15, tout = 0, Art = 0, line = 10 ^ 45, rate = 10 ^ 18\<rparr> (10 ^ 18)
     = Inr 1001001001001001001 \<and>
   ceilDiv (10 ^ 18 * WAD) (WAD - 10 ^ 15) = Inr 1001001001001001002 \<and>
   getPsmParams False 1001001001001001001 (10 ^ 18)
     \<lparr>toll = 10 ^ 15, psmAddress = ''psm'', gemJoinAddress = ''join'', gemDecimals = 18\<rparr> BUY
     = Inr \<lparr>isGemSell = True, gemAmount = 1001001001001001002\<rparr>"
  by (simp add: computePrice_def bigint_div_def ceilDiv_def WAD_def BN1_def BN0_def
      sellGemCheck_def getPsmParams_def bigint_pow_def)

section \<open>Stable to asset, sell side\<close>

text \<open>
  C2. Selling stable amounts for the asset, on an unsigned snapshot, unsigned amounts and a
  positive conversion factor: \<open>computePrices\<close> returns, for each amount \<open>a\<close> in order, with
  \<open>assetOut18 = a * W div (W + buyFeeRate)\<close>, the value \<open>assetOut18\<close> divided by the
  conversion factor (rounded down) when \<open>assetOut18 \<le> assetDebt\<close>, and the value zero,
  not an error, when \<open>assetOut18 > assetDebt\<close>.
\<close>

theorem sell_stable_source_quote:
  assumes "0 \<le> tout st" and "\<forall>a \<in> set amounts. 0 \<le> a" and "0 < factor"
  shows "computePrices True factor SELL amounts st =
           Inr (map (\<lambda>a. if (a * WAD) div (WAD + tout st) \<le> Art st
                          then ((a * WAD) div (WAD + tout st)) div factor else 0) amounts)"
  unfolding computePrices_def
proof (rule map_throwing_Inr)
  fix a assume "a \<in> set amounts"
  then have "0 \<le> a" using assms(2) by blast
  then show "computePrice True factor SELL st a =
               Inr (if (a * WAD) div (WAD + tout st) \<le> Art st
                    then ((a * WAD) div (WAD + tout st)) div factor else 0)"
    by (rule computePrice_sell_dai [OF assms(1) _ assms(3)])
qed

theorem sell_stable_source_quote_witness:
  "(0::int) \<le> 10 ^ 15 \<and> (0::int) \<le> 1001 * 10 ^ 18 \<and> (0::int) \<le> 2002 * 10 ^ 24 \<and>
   (0::int) < 10 ^ 12 \<and>
   computePrices True (10 ^ 12) SELL [1001 * 10 ^ 18, 2002 * 10 ^ 24]
     \<lparr>tin = 0, tout = 10 ^ 15, Art = 10 ^ 24, line = 5 * 10 ^ 42, rate = 10 ^ 18\<rparr>
     = Inr [10 ^ 9, 0]"
  using sell_stable_source_quote
    [of "\<lparr>tin = 0, tout = 10 ^ 15, Art = 10 ^ 24, line = 5 * 10 ^ 42, rate = 10 ^ 18\<rparr>"
        "[1001 * 10 ^ 18, 2002 * 10 ^ 24]" "10 ^ 12"]
  by (simp add: WAD_def)

section \<open>Asset to stable, sell side\<close>

text \<open>
  C3. Selling asset amounts for the stable token, on unsigned inputs and a positive
  conversion factor: \<open>computePrices\<close> returns, for each amount \<open>a\<close> in order, with
  \<open>assetIn18 = factor * a\<close>, the value \<open>assetIn18 - assetIn18 * sellFeeRate div W\<close> when
  \<open>(assetIn18 + assetDebt) * debtScaleRate \<le> debtCeiling\<close>, and zero otherwise. In the
  scenario \<open>assetDebt = debtCeiling / debtScaleRate\<close> exactly (a \<open>debtScaleRate\<close> one can
  divide by, and \<open>assetDebt * debtScaleRate = debtCeiling\<close>), every positive amount gives
  zero.
\<close>

theorem sell_asset_source_quote:
  assumes "0 \<le> tin st" and "\<forall>a \<in> set amounts. 0 \<le> a" and "0 < factor"
  shows "computePrices False factor SELL amounts st =
           Inr (map (\<lambda>a. if (factor * a + Art st) * rate st \<le> line st
                          then factor * a - (factor * a * tin st) div WAD else 0) amounts) \<and>
         (0 < rate st \<and> Art st * rate st = line st \<and> (\<forall>a \<in> set amounts. 0 < a) \<longrightarrow>
            computePrices False factor SELL amounts st = Inr (map (\<lambda>a. 0) amounts))"
proof -
  have f: "0 \<le> factor" using assms(3) by simp
  have c: "computePrice False factor SELL st a =
             Inr (if (factor * a + Art st) * rate st \<le> line st
                  then factor * a - (factor * a * tin st) div WAD else 0)"
    if "a \<in> set amounts" for a
  proof -
    have "0 \<le> a" using that assms(2) by blast
    then show ?thesis by (rule computePrice_sell_gem [OF assms(1) _ f])
  qed
  have over: "\<not> (factor * a + Art st) * rate st \<le> line st"
    if h: "0 < rate st" "Art st * rate st = line st" "0 < a" for a
  proof -
    have "0 < factor * a" using assms(3) h(3) by simp
    then have "0 < factor * a * rate st" using h(1) by simp
    moreover have "(factor * a + Art st) * rate st = factor * a * rate st + line st"
      using h(2) by (simp add: algebra_simps)
    ultimately show ?thesis by linarith
  qed
  have general: "computePrices False factor SELL amounts st =
           Inr (map (\<lambda>a. if (factor * a + Art st) * rate st \<le> line st
                          then factor * a - (factor * a * tin st) div WAD else 0) amounts)"
    unfolding computePrices_def by (rule map_throwing_Inr) (rule c)
  have at_ceiling: "computePrices False factor SELL amounts st = Inr (map (\<lambda>a. 0) amounts)"
    if h: "0 < rate st" "Art st * rate st = line st" "\<forall>a \<in> set amounts. 0 < a"
    unfolding computePrices_def
  proof (rule map_throwing_Inr)
    fix a assume a: "a \<in> set amounts"
    then have "0 < a" using h(3) by blast
    then have "\<not> (factor * a + Art st) * rate st \<le> line st"
      by (rule over [OF h(1,2)])
    then show "computePrice False factor SELL st a = Inr 0"
      using c [OF a] by simp
  qed
  show ?thesis using general at_ceiling by blast
qed

theorem sell_asset_source_quote_witness:
  "(0::int) \<le> 10 ^ 15 \<and> (0::int) < 10 ^ 9 \<and> (0::int) < 5 * 10 ^ 12 \<and> (0::int) < 10 ^ 12 \<and>
   computePrices False (10 ^ 12) SELL [10 ^ 9, 5 * 10 ^ 12]
     \<lparr>tin = 10 ^ 15, tout = 0, Art = 10 ^ 24, line = 5 * 10 ^ 42, rate = 10 ^ 18\<rparr>
     = Inr [999 * 10 ^ 18, 0] \<and>
   Art \<lparr>tin = 10 ^ 15, tout = 0, Art = 10 ^ 24, line = 10 ^ 42, rate = 10 ^ 18\<rparr>
     * rate \<lparr>tin = 10 ^ 15, tout = 0, Art = 10 ^ 24, line = 10 ^ 42, rate = 10 ^ 18\<rparr>
     = line \<lparr>tin = 10 ^ 15, tout = 0, Art = 10 ^ 24, line = 10 ^ 42, rate = 10 ^ 18\<rparr> \<and>
   computePrices False (10 ^ 12) SELL [10 ^ 9, 5 * 10 ^ 12]
     \<lparr>tin = 10 ^ 15, tout = 0, Art = 10 ^ 24, line = 10 ^ 42, rate = 10 ^ 18\<rparr>
     = Inr [0, 0]"
  using sell_asset_source_quote
    [of "\<lparr>tin = 10 ^ 15, tout = 0, Art = 10 ^ 24, line = 5 * 10 ^ 42, rate = 10 ^ 18\<rparr>"
        "[10 ^ 9, 5 * 10 ^ 12]" "10 ^ 12"]
    sell_asset_source_quote
    [of "\<lparr>tin = 10 ^ 15, tout = 0, Art = 10 ^ 24, line = 10 ^ 42, rate = 10 ^ 18\<rparr>"
        "[10 ^ 9, 5 * 10 ^ 12]" "10 ^ 12"]
  by (simp add: WAD_def)

section \<open>Monotonicity and the zero sentinel\<close>





section \<open>Totality of the pricing\<close>

lemma map_throwing_total:
  "(\<And>x. \<exists>y. g x = Inr y) \<Longrightarrow> \<exists>ys. map_throwing g xs = Inr ys \<and> length ys = length xs"
proof (induction xs)
  case Nil
  show ?case by simp
next
  case (Cons x xs)
  from Cons.prems obtain y where y: "g x = Inr y" by blast
  from Cons.IH [OF Cons.prems] obtain ys where ys: "map_throwing g xs = Inr ys" "length ys = length xs"
    by blast
  show ?case by (simp add: y ys)
qed

lemma computePrice_total:
  assumes "tin st < WAD" and "0 \<le> tout st" and "factor \<noteq> 0"
  shows "\<exists>y. computePrice isSrcDai factor side st a = Inr y"
proof -
  have W: "WAD \<noteq> 0" by (simp add: WAD_def)
  have d1: "WAD + tout st \<noteq> 0" using assms(2) by (simp add: WAD_def)
  show ?thesis
    using assms(1,3) d1
    by (auto simp add: computePrice_def Let_def bigint_div_def W split: sum.splits)
qed

lemma to18ConversionFactor_ok:
  "decimals \<le> 18 \<Longrightarrow> \<exists>factor. to18ConversionFactor decimals = Inr factor \<and> 1 \<le> factor"
  by (simp add: to18ConversionFactor_def bigint_pow_def)

lemma computePrice_faults:
  "tin st = WAD \<Longrightarrow> computePrice False factor BUY st a = Inl RangeError"
  by (simp add: computePrice_def bigint_div_def)

text \<open>
  C10. On a snapshot with \<open>tin < 10 ^ 18\<close> and an unsigned \<open>tout\<close>, for a pool whose
  asset has at most 18 decimals, the conversion factor exists and is at least 1, and
  \<open>computePrices\<close> returns a list of results, one per amount, for either direction and
  side: no division has a zero divisor. With \<open>tin = 10 ^ 18\<close> the buy-side computation
  with the asset as source throws on its division, for every amount, and so does
  \<open>computePrices\<close> on a list that is not empty.
\<close>

theorem computePrices_total:
  "(tin st < WAD \<and> 0 \<le> tout st \<and> decimals \<le> 18 \<longrightarrow>
      (\<exists>factor ys. to18ConversionFactor decimals = Inr factor \<and> 1 \<le> factor \<and>
         computePrices isSrcDai factor side amounts st = Inr ys \<and> length ys = length amounts)) \<and>
   (tin st = WAD \<longrightarrow>
      computePrice False factor' BUY st a = Inl RangeError \<and>
      computePrices False factor' BUY (a # amounts) st = Inl RangeError)"
proof (intro conjI impI)
  assume h: "tin st < WAD \<and> 0 \<le> tout st \<and> decimals \<le> 18"
  then obtain factor where f: "to18ConversionFactor decimals = Inr factor" "1 \<le> factor"
    using to18ConversionFactor_ok by blast
  then have nz: "factor \<noteq> 0" by simp
  have "\<And>a. \<exists>y. computePrice isSrcDai factor side st a = Inr y"
    using computePrice_total h nz by blast
  then obtain ys where "map_throwing (computePrice isSrcDai factor side st) amounts = Inr ys"
    "length ys = length amounts"
    using map_throwing_total by blast
  then show "\<exists>factor ys. to18ConversionFactor decimals = Inr factor \<and> 1 \<le> factor \<and>
         computePrices isSrcDai factor side amounts st = Inr ys \<and> length ys = length amounts"
    using f by (auto simp add: computePrices_def)
next
  assume "tin st = WAD"
  then show "computePrice False factor' BUY st a = Inl RangeError"
    by (rule computePrice_faults)
next
  assume "tin st = WAD"
  then show "computePrices False factor' BUY (a # amounts) st = Inl RangeError"
    by (simp add: computePrices_def computePrice_faults)
qed

theorem computePrices_total_witness:
  "tin \<lparr>tin = 10 ^ 15, tout = 0, Art = 10 ^ 24, line = 5 * 10 ^ 42, rate = 10 ^ 18\<rparr> < WAD \<and>
   (\<exists>factor ys. to18ConversionFactor 6 = Inr factor \<and> 1 \<le> factor \<and>
      computePrices False factor BUY [10 ^ 18, 3]
        \<lparr>tin = 10 ^ 15, tout = 0, Art = 10 ^ 24, line = 5 * 10 ^ 42, rate = 10 ^ 18\<rparr> = Inr ys \<and>
      length ys = length [10 ^ 18, 3 :: int]) \<and>
   tin \<lparr>tin = 10 ^ 18, tout = 0, Art = 10 ^ 24, line = 5 * 10 ^ 42, rate = 10 ^ 18\<rparr> = WAD \<and>
   computePrices False (10 ^ 12) BUY [10 ^ 18, 3]
     \<lparr>tin = 10 ^ 18, tout = 0, Art = 10 ^ 24, line = 5 * 10 ^ 42, rate = 10 ^ 18\<rparr>
     = Inl RangeError"
  using computePrices_total
    [where st = "\<lparr>tin = 10 ^ 15, tout = 0, Art = 10 ^ 24, line = 5 * 10 ^ 42, rate = 10 ^ 18\<rparr>"
       and decimals = 6 and isSrcDai = False and side = BUY and amounts = "[10 ^ 18, 3]"]
    computePrices_total
    [where st = "\<lparr>tin = 10 ^ 18, tout = 0, Art = 10 ^ 24, line = 5 * 10 ^ 42, rate = 10 ^ 18\<rparr>"
       and factor' = "10 ^ 12" and a = "10 ^ 18" and amounts = "[3]"]
  by (simp add: WAD_def)

section \<open>Processing a log\<close>

text \<open>
  C8. When the decoder throws on a log, \<open>processLog\<close> returns \<open>null\<close> and leaves the state
  object as it was. When the log decodes to an event whose name has no handler, that is,
  \<^verbatim>\<open>event.name in this.handlers\<close> is false (the name is not File, SellGem or BuyGem and is
  not a name inherited from \<^verbatim>\<open>Object.prototype\<close>), \<open>processLog\<close> returns the input state,
  unchanged.
\<close>

theorem processLog_failure_and_unhandled:
  "(logDecoder log = Inl e \<longrightarrow> processLog factor logDecoder state log = (LogNull, state)) \<and>
   (logDecoder log = Inr event \<and> name event \<notin> {''File'', ''SellGem'', ''BuyGem''} \<and>
    Object_prototype_member (name event) = None \<longrightarrow>
      processLog factor logDecoder state log = (LogState state, state))"
  by (simp add: processLog_def handlers_def)

theorem processLog_failure_and_unhandled_witness:
  "Object_prototype_member ''Rely'' = None \<and>
   processLog 1 (\<lambda>l::nat. if l = 0 then Inl ParseError
                  else Inr \<lparr>name = ''Rely'', args_what = None, args_data = None, args_value = None\<rparr>)
     \<lparr>tin = 1, tout = 2, Art = 3, line = 4, rate = 5\<rparr> 0
     = (LogNull, \<lparr>tin = 1, tout = 2, Art = 3, line = 4, rate = 5\<rparr>) \<and>
   processLog 1 (\<lambda>l::nat. if l = 0 then Inl ParseError
                  else Inr \<lparr>name = ''Rely'', args_what = None, args_data = None, args_value = None\<rparr>)
     \<lparr>tin = 1, tout = 2, Art = 3, line = 4, rate = 5\<rparr> 1
     = (LogState \<lparr>tin = 1, tout = 2, Art = 3, line = 4, rate = 5\<rparr>,
        \<lparr>tin = 1, tout = 2, Art = 3, line = 4, rate = 5\<rparr>)"
  using processLog_failure_and_unhandled
    [where logDecoder = "\<lambda>l::nat. if l = 0 then Inl ParseError
                  else Inr \<lparr>name = ''Rely'', args_what = None, args_data = None, args_value = None\<rparr>"
       and log = 0 and e = ParseError and factor = 1
       and state = "\<lparr>tin = 1, tout = 2, Art = 3, line = 4, rate = 5\<rparr>"]
    processLog_failure_and_unhandled
    [where logDecoder = "\<lambda>l::nat. if l = 0 then Inl ParseError
                  else Inr \<lparr>name = ''Rely'', args_what = None, args_data = None, args_value = None\<rparr>"
       and log = 1 and factor = 1
       and event = "\<lparr>name = ''Rely'', args_what = None, args_data = None, args_value = None\<rparr>"
       and state = "\<lparr>tin = 1, tout = 2, Art = 3, line = 4, rate = 5\<rparr>"]
  by (simp add: Object_prototype_member_def)

text \<open>
  An inherited name is outside the second case: for an event named \<open>constructor\<close> the
  inherited member is called and its value, not a pool state, is returned; for one named
  \<open>__proto__\<close> the call throws and \<open>null\<close> is returned.
\<close>

lemma processLog_inherited_name:
  "processLog 1
     (\<lambda>l::nat. Inr \<lparr>name = ''constructor'', args_what = None, args_data = None,
                      args_value = None\<rparr>)
     \<lparr>tin = 1, tout = 2, Art = 3, line = 4, rate = 5\<rparr> 0
     = (LogOther, \<lparr>tin = 1, tout = 2, Art = 3, line = 4, rate = 5\<rparr>) \<and>
   processLog 1
     (\<lambda>l::nat. Inr \<lparr>name = ''__proto__'', args_what = None, args_data = None,
                      args_value = None\<rparr>)
     \<lparr>tin = 1, tout = 2, Art = 3, line = 4, rate = 5\<rparr> 0
     = (LogNull, \<lparr>tin = 1, tout = 2, Art = 3, line = 4, rate = 5\<rparr>)"
  by (simp add: processLog_def handlers_def Object_prototype_member_def)

section \<open>Liquidity of a pool\<close>

text \<open>
  C6, as amended. On a snapshot with a positive \<open>debtScaleRate\<close> and an unsigned debt that
  is within its ceiling, with \<open>buyLimit = assetDebt\<close> and
  \<open>sellLimit = (debtCeiling - assetDebt * debtScaleRate) div debtScaleRate\<close>: the liquidity
  figure is twice the number of whole units in \<open>min buyLimit sellLimit\<close>, that is
  \<open>2 * (min buyLimit sellLimit div 10 ^ 18)\<close>. The minimum is rounded down to whole units
  first and doubled afterwards. (The number of whole units is at most \<open>2 ^ 53\<close>, so that it
  is a double as it is.)
\<close>

theorem minLiq_value:
  assumes "0 \<le> Art st" and "0 < rate st" and "Art st * rate st \<le> line st"
    and "min (Art st) ((line st - Art st * rate st) div rate st) div 10 ^ 18 \<le> 2 ^ 53"
  shows "minLiq st =
           Inr (Some (2 * (min (Art st) ((line st - Art st * rate st) div rate st) div 10 ^ 18)))"
proof -
  let ?sell = "(line st - Art st * rate st) div rate st"
  let ?m = "min (Art st) ?sell"
  have n: "0 \<le> line st - Art st * rate st" using assms(3) by simp
  have s: "bigint_div (line st - Art st * rate st) (rate st) = Inr ?sell"
    by (rule bigint_div_nonneg [OF n assms(2)])
  have s0: "0 \<le> ?sell" using n assms(2) by (simp add: pos_imp_zdiv_nonneg_iff)
  have m0: "0 \<le> ?m" using assms(1) s0 by simp
  have m: "(if Art st > ?sell then ?sell else Art st) = ?m" by (simp add: min_def)
  have q: "bigint_div ?m BN1E18 = Inr (?m div 10 ^ 18)"
    unfolding BN1E18_def by (rule bigint_div_nonneg [OF m0]) simp
  have q0: "0 \<le> ?m div 10 ^ 18" using m0 by (simp add: pos_imp_zdiv_nonneg_iff)
  have p: "parseInt (?m div 10 ^ 18) = Some (?m div 10 ^ 18)"
    using q0 assms(4) by (simp add: parseInt_def)
  show ?thesis
    unfolding minLiq_def Let_def s by (simp only: sum.case m q p option.map)
qed

theorem minLiq_value_witness:
  "minLiq \<lparr>tin = 0, tout = 0, Art = 25 * 10 ^ 17, line = 5 * 10 ^ 36, rate = 10 ^ 18\<rparr>
     = Inr (Some 4)"
  using minLiq_value
    [of "\<lparr>tin = 0, tout = 0, Art = 25 * 10 ^ 17, line = 5 * 10 ^ 36, rate = 10 ^ 18\<rparr>"]
  by simp

text \<open>
  The claim as stated doubles first and rounds down afterwards. With a debt of 1.5 units as
  the smaller limit, that gives 3; the code returns 2. And on a snapshot whose debt is half
  a unit above its ceiling the sell limit is minus half a unit: the code's divisions round
  towards zero and it returns 0, where rounding down gives \<open>- 1\<close> (after doubling) or
  \<open>- 2\<close> (before doubling).
\<close>

theorem minLiq_counterexample:
  "minLiq \<lparr>tin = 0, tout = 0, Art = 15 * 10 ^ 17, line = 5 * 10 ^ 36, rate = 10 ^ 18\<rparr>
     = Inr (Some 2) \<and>
   spec_liquidityEstimate
     \<lparr>tin = 0, tout = 0, Art = 15 * 10 ^ 17, line = 5 * 10 ^ 36, rate = 10 ^ 18\<rparr> = 3 \<and>
   minLiq \<lparr>tin = 0, tout = 0, Art = 2 * 10 ^ 18, line = 15 * 10 ^ 35, rate = 10 ^ 18\<rparr>
     = Inr (Some 0) \<and>
   spec_liquidityEstimate
     \<lparr>tin = 0, tout = 0, Art = 2 * 10 ^ 18, line = 15 * 10 ^ 35, rate = 10 ^ 18\<rparr> = - 1 \<and>
   2 * (min (2 * 10 ^ 18) ((15 * 10 ^ 35 - 2 * 10 ^ 18 * 10 ^ 18) div 10 ^ 18) div 10 ^ 18)
     = (- 2 :: int)"
  by (simp add: minLiq_def bigint_div_def BN1E18_def parseInt_def spec_liquidityEstimate_def)

text \<open>With a zero \<open>debtScaleRate\<close> the division for the sell limit throws.\<close>

lemma minLiq_zero_rate:
  "rate st = 0 \<Longrightarrow> minLiq st = Inl RangeError"
  by (simp add: minLiq_def bigint_div_def)

section \<open>From a quote to the execution parameters\<close>

text \<open>
  C5. The claim: the asset amount that \<open>getPsmParams\<close> rebuilds from a quote agrees with the
  quote, exactly on the sell paths and within one native unit on the buy path that rounds
  up. On the buy path with the asset as source, \<open>computePrice\<close> prices with \<open>tin\<close>, but
  \<open>getPricesVolume\<close> records \<open>tout\<close> as the quote's \<open>toll\<close>, and \<open>getPsmParams\<close> divides
  by \<open>WAD - toll\<close>. With \<open>tin = 0\<close> and \<open>tout\<close> at 1 percent, a request for 1000 units of
  the stable token is quoted at \<open>1000 * 10 ^ 18\<close> of an 18-decimal asset, and the rebuilt
  amount is \<open>1010101010101010101011\<close>; sold at the snapshot's sell fee, that amount brings
  \<open>1010101010101010101011\<close> of the stable token, not the \<open>1000 * 10 ^ 18\<close> requested.
\<close>

theorem roundtrip_buy_asset_source_diverges:
  "getPricesVolume False 1 ''psm'' ''join'' 18 18 [1000 * 10 ^ 18] BUY
     \<lparr>tin = 0, tout = 10 ^ 16, Art = 0, line = 10 ^ 45, rate = 10 ^ 18\<rparr>
     = Inr \<lparr>prices = [1000 * 10 ^ 18], unit = 10 ^ 18,
            data = \<lparr>toll = 10 ^ 16, psmAddress = ''psm'', gemJoinAddress = ''join'',
                    gemDecimals = 18\<rparr>\<rparr> \<and>
   getPsmParams False (1000 * 10 ^ 18) (1000 * 10 ^ 18)
     \<lparr>toll = 10 ^ 16, psmAddress = ''psm'', gemJoinAddress = ''join'', gemDecimals = 18\<rparr> BUY
     = Inr \<lparr>isGemSell = True, gemAmount = 1010101010101010101011\<rparr> \<and>
   computePrice False 1 SELL
     \<lparr>tin = 0, tout = 10 ^ 16, Art = 0, line = 10 ^ 45, rate = 10 ^ 18\<rparr>
     1010101010101010101011 = Inr 1010101010101010101011"
  by (simp add: getPricesVolume_def getPricesVolume_toll_def computePrices_def computePrice_def
      getPsmParams_def bigint_pow_def ceilDiv_def bigint_div_def sellGemCheck_def
      WAD_def BN0_def BN1_def)

text \<open>
  What does hold: on the sell path with the stable token as source the rebuilt amount is the
  quote, and on the buy path with the asset as source it is the quote or one unit more
  when the \<open>toll\<close> is the fee the quote was priced with.
\<close>

lemma getPsmParams_sell_dai_is_quote:
  assumes "0 \<le> tout st" and "0 \<le> a" and "dec \<le> 18"
    and "feasible True (10 ^ nat (18 - dec)) SELL st a"
  shows "\<exists>y. computePrice True (10 ^ nat (18 - dec)) SELL st a = Inr y \<and>
           getPsmParams True a y
             \<lparr>toll = getPricesVolume_toll SELL True st, psmAddress = psm,
               gemJoinAddress = gemJoin, gemDecimals = dec\<rparr> SELL
             = Inr \<lparr>isGemSell = False, gemAmount = y\<rparr>"
proof -
  let ?f = "10 ^ nat (18 - dec) :: int"
  have f: "0 < ?f" by simp
  have d: "0 < WAD + tout st" using assms(1) WAD_pos by linarith
  have n: "0 \<le> a * WAD" using assms(2) WAD_pos by simp
  have q: "0 \<le> (a * WAD) div (WAD + tout st)"
    using n d by (simp add: pos_imp_zdiv_nonneg_iff)
  have c: "computePrice True ?f SELL st a = Inr (((a * WAD) div (WAD + tout st)) div ?f)"
    using assms(4) computePrice_sell_dai [OF assms(1,2) f]
    by (simp add: feasible_def gemAmt18_of_def)
  have p: "bigint_pow 10 (18 - dec) = Inr ?f"
    using assms(3) by (simp add: bigint_pow_def)
  show ?thesis
    by (simp add: c getPsmParams_def p getPricesVolume_toll_def
        bigint_div_nonneg [OF n d] bigint_div_nonneg [OF q f])
qed

lemma ceiling_quotient_bounds:
  fixes n d :: int
  assumes "0 < d"
  shows "n div d \<le> (n + d - 1) div d" and "(n + d - 1) div d \<le> n div d + 1"
proof -
  show "n div d \<le> (n + d - 1) div d"
    using assms by (intro zdiv_mono1) simp_all
  have "(n + d - 1) div d \<le> (n + d) div d"
    using assms by (intro zdiv_mono1) simp_all
  moreover have "(n + d) div d = n div d + 1"
    using assms div_add_self2 [of d n] by simp
  ultimately show "(n + d - 1) div d \<le> n div d + 1" by simp
qed

lemma getPsmParams_buy_gem_same_fee:
  assumes "tin st < WAD" and "0 \<le> a" and "dec \<le> 18"
  shows "\<exists>g. getPsmParams False src a
               \<lparr>toll = tin st, psmAddress = psm, gemJoinAddress = gemJoin, gemDecimals = dec\<rparr> BUY
               = Inr \<lparr>isGemSell = True, gemAmount = g\<rparr> \<and>
             ((a * WAD) div (WAD - tin st)) div 10 ^ nat (18 - dec) \<le> g \<and>
             g \<le> ((a * WAD) div (WAD - tin st)) div 10 ^ nat (18 - dec) + 1"
proof -
  let ?f = "10 ^ nat (18 - dec) :: int"
  let ?D = "(WAD - tin st) * ?f"
  let ?n = "a * WAD"
  have f: "0 < ?f" by simp
  have d: "0 < WAD - tin st" using assms(1) by linarith
  have D: "0 < ?D" using d f by (rule mult_pos_pos)
  have n: "0 \<le> ?n" using assms(2) WAD_pos by simp
  have n': "0 \<le> ?n + ?D - BN1" using n D by (simp add: BN1_def)
  have p: "bigint_pow 10 (18 - dec) = Inr ?f"
    using assms(3) by (simp add: bigint_pow_def)
  have c: "ceilDiv ?n ?D = Inr ((?n + ?D - BN1) div ?D)"
    unfolding ceilDiv_def by (rule bigint_div_nonneg [OF n' D])
  have q: "(?n div (WAD - tin st)) div ?f = ?n div ?D"
    using f by (simp add: zdiv_zmult2_eq)
  have lo: "?n div ?D \<le> (?n + ?D - BN1) div ?D"
    unfolding BN1_def by (rule ceiling_quotient_bounds(1) [OF D])
  have hi: "(?n + ?D - BN1) div ?D \<le> ?n div ?D + 1"
    unfolding BN1_def by (rule ceiling_quotient_bounds(2) [OF D])
  have g: "getPsmParams False src a
             \<lparr>toll = tin st, psmAddress = psm, gemJoinAddress = gemJoin, gemDecimals = dec\<rparr> BUY
             = Inr \<lparr>isGemSell = True, gemAmount = (?n + ?D - BN1) div ?D\<rparr>"
    by (simp add: getPsmParams_def p c)
  show ?thesis
    unfolding g q using lo hi by blast
qed

section \<open>Fetching the state twice\<close>

text \<open>
  C7, as amended. For any subscriber whose \<open>getState\<close> returns at a block what \<open>setState\<close>
  stored at that block: when a call of \<open>getPoolState\<close> for a block has returned a
  snapshot, a second call for the same block, started after the first has ended and with
  nothing in between, returns the same snapshot and issues no chain read; the two calls
  together issue at most one.
\<close>

theorem getPoolState_twice_sequentially:
  assumes law: "\<And>s b st. getState (setState s b st) b = Some s"
    and first: "getPoolState getState setState chain w blockNumber = (Inr s, w1)"
  shows "getPoolState getState setState chain w1 blockNumber = (Inr s, w1) \<and>
         chainReads w1 \<le> chainReads w + 1"
proof (cases "getState (store w) blockNumber")
  case None
  with first obtain "chain blockNumber = Inr s"
    and w1: "w1 = w\<lparr>chainReads := chainReads w + 1, store := setState s blockNumber (store w)\<rparr>"
    by (auto simp add: getPoolState_def getPoolState_begin_def getPoolState_resume_def
        split: sum.splits)
  have "getState (store w1) blockNumber = Some s"
    by (simp add: w1 law)
  then show ?thesis
    by (simp add: getPoolState_def getPoolState_begin_def getPoolState_resume_def w1)
next
  case (Some s')
  with first have "s' = s" and "w1 = w"
    by (simp_all add: getPoolState_def getPoolState_begin_def getPoolState_resume_def)
  with Some show ?thesis
    by (simp add: getPoolState_def getPoolState_begin_def getPoolState_resume_def)
qed

theorem getPoolState_twice_sequentially_witness:
  "getPoolState store_get store_put
     (\<lambda>b. Inr \<lparr>tin = 0, tout = 0, Art = int b, line = 10 ^ 45, rate = 10 ^ 27\<rparr>)
     \<lparr>store = Map.empty(100 \<mapsto> \<lparr>tin = 0, tout = 0, Art = 100, line = 10 ^ 45, rate = 10 ^ 27\<rparr>),
       chainReads = 1\<rparr> 100
     = (Inr \<lparr>tin = 0, tout = 0, Art = 100, line = 10 ^ 45, rate = 10 ^ 27\<rparr>,
        \<lparr>store = Map.empty(100 \<mapsto> \<lparr>tin = 0, tout = 0, Art = 100, line = 10 ^ 45, rate = 10 ^ 27\<rparr>),
          chainReads = 1\<rparr>)"
proof -
  have law: "\<And>s b st. store_get (store_put s b st) b = Some s"
    by (simp add: store_get_def store_put_def)
  have first: "getPoolState store_get store_put
     (\<lambda>b. Inr \<lparr>tin = 0, tout = 0, Art = int b, line = 10 ^ 45, rate = 10 ^ 27\<rparr>)
     \<lparr>store = Map.empty, chainReads = 0\<rparr> 100
     = (Inr \<lparr>tin = 0, tout = 0, Art = 100, line = 10 ^ 45, rate = 10 ^ 27\<rparr>,
        \<lparr>store = Map.empty(100 \<mapsto> \<lparr>tin = 0, tout = 0, Art = 100, line = 10 ^ 45, rate = 10 ^ 27\<rparr>),
          chainReads = 1\<rparr>)"
    by (simp add: getPoolState_def getPoolState_begin_def getPoolState_resume_def
        store_get_def store_put_def)
  show ?thesis
    using getPoolState_twice_sequentially [OF law first] by simp
qed

text \<open>
  The claim as stated also has concurrent identical requests share one chain read.
  \<open>getPoolState\<close> keeps no record of a read in flight: two calls for block 100 on an empty
  store, the second made before the first read has resolved, both miss and both read the
  chain.
\<close>

theorem getPoolState_concurrent_counterexample:
  "getPoolState_concurrently store_get store_put
     (\<lambda>b. Inr \<lparr>tin = 0, tout = 0, Art = int b, line = 10 ^ 45, rate = 10 ^ 27\<rparr>)
     \<lparr>store = Map.empty, chainReads = 0\<rparr> 100
     = (Inr \<lparr>tin = 0, tout = 0, Art = 100, line = 10 ^ 45, rate = 10 ^ 27\<rparr>,
        Inr \<lparr>tin = 0, tout = 0, Art = 100, line = 10 ^ 45, rate = 10 ^ 27\<rparr>,
        \<lparr>store = Map.empty(100 \<mapsto> \<lparr>tin = 0, tout = 0, Art = 100, line = 10 ^ 45, rate = 10 ^ 27\<rparr>),
          chainReads = 2\<rparr>)"
  by (simp add: getPoolState_concurrently_def getPoolState_begin_def getPoolState_resume_def
      store_get_def store_put_def)

end
